theory Spec2Isabelle
  imports Main
begin

section \<open>Python values, exceptions and files\<close>

text \<open>
  The program is Python 2.7. Strings are byte strings (\<open>string\<close>), Python's \<open>None\<close> is
  the \<open>None\<close> of an option type, and every exception the modelled functions can raise is
  a value of \<open>error\<close>, returned as \<open>Inl\<close>. \<open>MyException\<close> is the program's one domain
  exception (``Generic exception to handle program flow exits''); it carries its message.
  \<open>AttributeError\<close> carries the name of the missing attribute, \<open>UnboundLocalError\<close> the
  name of the unbound local variable, \<open>IOError\<close> is what \<open>open\<close> raises.
\<close>

datatype error =
    MyException string
  | NotImplementedError string
  | AttributeError string
  | UnboundLocalError string
  | IOError

text \<open>
  A dump file is given by what \<open>open(dumpfile)\<close> does: it raises \<open>IOError\<close> (\<open>None\<close>)
  or gives the text of the file (\<open>Some text\<close>).
\<close>

type_synonym dumpfile = "string option"

text \<open>A local variable that may be read before any assignment has bound it.\<close>

datatype 'a var = Unbound | Bound 'a

definition newline :: char where
  "newline = CHR 0x0A"

text \<open>
  \<open>f.readlines()\<close>: the text cut after every newline, each line keeping its newline;
  a last line without one is kept as it is, and an empty file has no line.
\<close>

fun readlines :: "string \<Rightarrow> string list" where
  "readlines [] = []"
| "readlines (c # cs) =
     (if c = newline then [c] # readlines cs
      else (case readlines cs of [] \<Rightarrow> [[c]] | l # ls \<Rightarrow> (c # l) # ls))"

text \<open>\<open>"{}".format(x)\<close> of a string or of \<open>None\<close>.\<close>

definition format_str :: "string option \<Rightarrow> string" where
  "format_str x = (case x of None \<Rightarrow> ''None'' | Some s \<Rightarrow> s)"

section \<open>Regular expressions: \<open>re.match\<close>\<close>

text \<open>
  The fragment of Python's \<open>re\<close> that the program's patterns use: single characters and
  character classes, the greedy \<open>+\<close> on a class, \<open>{n}\<close>, concatenation, capturing
  groups, \<open>^\<close> and \<open>$\<close>. The matcher is the backtracking one: \<open>run r st\<close> lists the
  states in which \<open>r\<close> can end when started in \<open>st\<close>, in the order in which the
  backtracking search tries them (a greedy \<open>+\<close> tries the longest run first), so the
  match that \<open>re.match\<close> returns is the head of the list. A state is the position, the
  rest of the line and the groups captured so far (the latest capture of a group first).
\<close>

datatype cclass = Chr char | AnyButNewline | InSet string

fun in_class :: "cclass \<Rightarrow> char \<Rightarrow> bool" where
  "in_class (Chr a) c = (c = a)"
| "in_class AnyButNewline c = (c \<noteq> newline)"
| "in_class (InSet cs) c = (c \<in> set cs)"

datatype regex =
    Eps
  | Atom cclass
  | Plus cclass
  | Times nat regex
  | Seq regex regex
  | Group nat regex
  | Bol
  | Eol

type_synonym groups = "(nat \<times> string) list"
type_synonym mstate = "nat \<times> string \<times> groups"

fun greedy :: "cclass \<Rightarrow> nat \<Rightarrow> string \<Rightarrow> (nat \<times> string) list" where
  "greedy c p [] = [(p, [])]"
| "greedy c p (x # xs) =
     (if in_class c x then greedy c (Suc p) xs @ [(p, x # xs)] else [(p, x # xs)])"

primrec iter :: "nat \<Rightarrow> ('a \<Rightarrow> 'a list) \<Rightarrow> 'a \<Rightarrow> 'a list" where
  "iter 0 f x = [x]"
| "iter (Suc n) f x = concat (map (iter n f) (f x))"

fun run :: "regex \<Rightarrow> mstate \<Rightarrow> mstate list" where
  "run Eps st = [st]"
| "run (Atom c) (p, s, g) =
     (case s of [] \<Rightarrow> [] | x # xs \<Rightarrow> if in_class c x then [(Suc p, xs, g)] else [])"
| "run (Plus c) (p, s, g) =
     (case s of [] \<Rightarrow> []
      | x # xs \<Rightarrow>
          if in_class c x then map (\<lambda>(p', s'). (p', s', g)) (greedy c (Suc p) xs) else [])"
| "run (Times n r) st = iter n (run r) st"
| "run (Seq a b) st = concat (map (run b) (run a st))"
| "run (Group n r) (p, s, g) =
     map (\<lambda>(p', s', g'). (p', s', (n, take (p' - p) s) # g')) (run r (p, s, g))"
| "run Bol (p, s, g) = (if p = 0 then [(p, s, g)] else [])"
| "run Eol (p, s, g) = (if s = [] \<or> s = [newline] then [(p, s, g)] else [])"

text \<open>\<open>re.match(regexp, line)\<close>: \<open>None\<close>, or the groups of the first match found.\<close>

definition re_match :: "regex \<Rightarrow> string \<Rightarrow> groups option" where
  "re_match r line = (case run r (0, line, []) of [] \<Rightarrow> None | (p, s, g) # _ \<Rightarrow> Some g)"

text \<open>\<open>m.group(n)\<close>: the text the group matched, \<open>None\<close> when it took no part.\<close>

definition group :: "groups \<Rightarrow> nat \<Rightarrow> string option" where
  "group g n = map_of g n"

text \<open>
  \<open>len(m.groups())\<close> is the number of groups of the pattern, whatever the line was.
\<close>

fun group_ids :: "regex \<Rightarrow> nat list" where
  "group_ids (Times n r) = group_ids r"
| "group_ids (Seq a b) = group_ids a @ group_ids b"
| "group_ids (Group n r) = n # group_ids r"
| "group_ids r = []"

definition ngroups :: "regex \<Rightarrow> nat" where
  "ngroups r = length (remdups (group_ids r))"

text \<open>
  The test \<open>m and len(m.groups()) >= n\<close> after \<open>m = re.match(regexp, line)\<close>: the
  groups of the match when the test holds.
\<close>

definition match_with_groups :: "regex \<Rightarrow> nat \<Rightarrow> string \<Rightarrow> groups option" where
  "match_with_groups r n line =
     (case re_match r line of
        None \<Rightarrow> None
      | Some g \<Rightarrow> if n \<le> ngroups r then Some g else None)"

subsection \<open>Writing patterns\<close>

definition seqs :: "regex list \<Rightarrow> regex" where
  "seqs rs = foldr Seq rs Eps"

definition lit :: "string \<Rightarrow> regex" where
  "lit s = seqs (map (\<lambda>c. Atom (Chr c)) s)"

text \<open>
  The classes \<open>\s\<close>, \<open>\d\<close> and \<open>\w\<close> of a byte-string pattern without flags:
  \<open>[ \t\n\r\f\v]\<close>, \<open>[0-9]\<close> and \<open>[a-zA-Z0-9_]\<close>.
\<close>

definition py_space :: string where
  "py_space = [CHR '' '', CHR 0x09, CHR 0x0A, CHR 0x0D, CHR 0x0C, CHR 0x0B]"

definition py_digit :: string where
  "py_digit = ''0123456789''"

definition py_word :: string where
  "py_word = ''abcdefghijklmnopqrstuvwxyzABCDEFGHIJKLMNOPQRSTUVWXYZ0123456789_''"

abbreviation sp :: cclass where "sp \<equiv> InSet py_space"
abbreviation dg :: cclass where "dg \<equiv> InSet py_digit"

section \<open>\<open>networkmap/node.py\<close>\<close>

text \<open>
  \<open>Node(ip=None, mac=None)\<close>: \<open>__init__\<close> sets the two attributes \<open>ip\<close> and \<open>mac\<close>
  and nothing else.
\<close>

record Node =
  ip :: "string option"
  mac :: "string option"

definition mk_Node :: "string option \<Rightarrow> string option \<Rightarrow> Node" where
  "mk_Node i m = \<lparr>ip = i, mac = m\<rparr>"

text \<open>Truth value of an attribute that is \<open>None\<close> or a string: false for \<open>None\<close> and \<open>''\<close>.\<close>

definition truthy :: "string option \<Rightarrow> bool" where
  "truthy x = (case x of None \<Rightarrow> False | Some s \<Rightarrow> s \<noteq> [])"

text \<open>
  \<open>self.other\<close>: an instance has the attributes \<open>ip\<close> and \<open>mac\<close> only, and neither the
  class nor \<open>object\<close> has an attribute \<open>other\<close>, so the lookup raises \<open>AttributeError\<close>.
\<close>

definition Node_other :: "Node \<Rightarrow> error + Node" where
  "Node_other self = Inl (AttributeError ''other'')"

text \<open>
  \<open>Node.__eq__(self, other)\<close>, read left to right as Python evaluates it:
  \<^verbatim>\<open>
    if self.mac and self.other.mac:
        return self.ip == self.other.ip and self.mac == self.other.mac
    return self.ip == self.other.ip
  \<close>
  The parameter \<open>other\<close> is never read: every access goes through \<open>self.other\<close>.
\<close>

definition Node_eq :: "Node \<Rightarrow> Node \<Rightarrow> error + bool" where
  "Node_eq self other =
     (case (if truthy (mac self)
            then (case Node_other self of Inl e \<Rightarrow> Inl e | Inr o1 \<Rightarrow> Inr (truthy (mac o1)))
            else Inr False) of
        Inl e \<Rightarrow> Inl e
      | Inr True \<Rightarrow>
          (case Node_other self of
             Inl e \<Rightarrow> Inl e
           | Inr o2 \<Rightarrow>
               if ip self = ip o2
               then (case Node_other self of Inl e \<Rightarrow> Inl e | Inr o3 \<Rightarrow> Inr (mac self = mac o3))
               else Inr False)
      | Inr False \<Rightarrow>
          (case Node_other self of Inl e \<Rightarrow> Inl e | Inr o4 \<Rightarrow> Inr (ip self = ip o4)))"

section \<open>\<open>networkmap/parsers.py\<close>\<close>

subsection \<open>The signature table \<open>guess_data\<close>\<close>

text \<open>\<^verbatim>\<open>^Interface:\s+\<close>\<close>

definition sig_arp_windows :: regex where
  "sig_arp_windows = seqs [Bol, lit ''Interface:'', Plus sp]"

text \<open>\<^verbatim>\<open>^Address\s+HWtype\s+HWaddress\s+Flags\s+Mask\s+Iface$\<close>\<close>

definition sig_arp_linux :: regex where
  "sig_arp_linux =
     seqs [Bol, lit ''Address'', Plus sp, lit ''HWtype'', Plus sp, lit ''HWaddress'', Plus sp,
           lit ''Flags'', Plus sp, lit ''Mask'', Plus sp, lit ''Iface'', Eol]"

text \<open>\<^verbatim>\<open>^Host\s+Ethernet\sAddress\s+Netif\sExpire\sFlags$\<close>\<close>

definition sig_arp_openbsd :: regex where
  "sig_arp_openbsd =
     seqs [Bol, lit ''Host'', Plus sp, lit ''Ethernet'', Atom sp, lit ''Address'', Plus sp,
           lit ''Netif'', Atom sp, lit ''Expire'', Atom sp, lit ''Flags'', Eol]"

text \<open>\<^verbatim>\<open>^traceroute to .+ \([\d.]+\), \d+ hops max, \d+ byte packets$\<close>\<close>

definition sig_traceroute_linux :: regex where
  "sig_traceroute_linux =
     seqs [Bol, lit ''traceroute to '', Plus AnyButNewline, lit '' ('',
           Plus (InSet (py_digit @ ''.'')), lit ''), '', Plus dg, lit '' hops max, '',
           Plus dg, lit '' byte packets'', Eol]"

text \<open>\<^verbatim>\<open>^Kernel IP routing table$\<close>\<close>

definition sig_route_linux_title :: regex where
  "sig_route_linux_title = seqs [Bol, lit ''Kernel IP routing table'', Eol]"

text \<open>\<^verbatim>\<open>^Destination\s+Gateway\s+Genmask\s+Flags\sMetric\sRef\s+Use\sIface$\<close>\<close>

definition sig_route_linux_header :: regex where
  "sig_route_linux_header =
     seqs [Bol, lit ''Destination'', Plus sp, lit ''Gateway'', Plus sp, lit ''Genmask'', Plus sp,
           lit ''Flags'', Atom sp, lit ''Metric'', Atom sp, lit ''Ref'', Plus sp, lit ''Use'',
           Atom sp, lit ''Iface'', Eol]"

text \<open>Seventy-five \<open>=\<close> signs.\<close>

definition sig_route_windows :: regex where
  "sig_route_windows =
     lit ''===========================================================================''"

definition guess_data :: "((string \<times> string) \<times> regex) list" where
  "guess_data =
     [((''arp'', ''windows''), sig_arp_windows),
      ((''arp'', ''linux''), sig_arp_linux),
      ((''arp'', ''openbsd''), sig_arp_openbsd),
      ((''traceroute'', ''linux''), sig_traceroute_linux),
      ((''route'', ''linux''), sig_route_linux_title),
      ((''route'', ''linux''), sig_route_linux_header),
      ((''route'', ''windows''), sig_route_windows)]"

subsection \<open>\<open>guess_dumpfile_type_and_os\<close>\<close>

text \<open>
  The inner loop \<open>for type_os, regexp in guess_data\<close> on one line: the descriptor of
  the first entry whose pattern matches the line, as the \<open>return\<close> inside the loop gives
  it, or \<open>None\<close> when the loop ends without a match.
\<close>

fun match_signatures :: "((string \<times> string) \<times> regex) list \<Rightarrow> string \<Rightarrow> (string \<times> string) option"
where
  "match_signatures [] line = None"
| "match_signatures ((type_os, regexp) # rest) line =
     (case re_match regexp line of
        Some m \<Rightarrow> Some type_os
      | None \<Rightarrow> match_signatures rest line)"

text \<open>The outer loop \<open>for line in f.readlines()\<close>, and the final \<open>return None, None\<close>.\<close>

fun guess_lines :: "string list \<Rightarrow> string option \<times> string option" where
  "guess_lines [] = (None, None)"
| "guess_lines (line # rest) =
     (case match_signatures guess_data line of
        Some (file_type, os) \<Rightarrow> (Some file_type, Some os)
      | None \<Rightarrow> guess_lines rest)"

definition guess_dumpfile_type_and_os :: "dumpfile \<Rightarrow> error + (string option \<times> string option)"
where
  "guess_dumpfile_type_and_os dumpfile =
     (case dumpfile of
        None \<Rightarrow> Inl IOError
      | Some text \<Rightarrow> Inr (guess_lines (readlines text)))"

subsection \<open>\<open>parse_linux_tr\<close>\<close>

text \<open>\<^verbatim>\<open>\s+\d+\s+([\w.]+)\<close>\<close>

definition re_tr_hop :: regex where
  "re_tr_hop = seqs [Plus sp, Plus dg, Plus sp, Group 1 (Plus (InSet (py_word @ ''.'')))]"

text \<open>The loop over the lines, appending a \<open>Node\<close> per hop line to \<open>hops\<close>.\<close>

fun tr_lines :: "string list \<Rightarrow> Node list \<Rightarrow> Node list" where
  "tr_lines [] hops = hops"
| "tr_lines (line # rest) hops =
     (case match_with_groups re_tr_hop 1 line of
        Some m \<Rightarrow> tr_lines rest (hops @ [mk_Node (group m 1) None])
      | None \<Rightarrow> tr_lines rest hops)"

definition tr_no_ip_message :: string where
  "tr_no_ip_message =
     ''Linux ARP does not contain the IP of the centre node; please supply it manually with --ip''
     @ [newline]"

definition parse_linux_tr :: "dumpfile \<Rightarrow> string option \<Rightarrow> error + Node list" where
  "parse_linux_tr dumpfile ip_arg =
     (case ip_arg of
        None \<Rightarrow> Inl (MyException tr_no_ip_message)
      | Some a \<Rightarrow>
          (case dumpfile of
             None \<Rightarrow> Inl IOError
           | Some text \<Rightarrow> Inr (tr_lines (readlines text) [mk_Node ip_arg None])))"

subsection \<open>\<open>parse_windows_arp\<close>\<close>

text \<open>\<^verbatim>\<open>Interface: (.+) ---\<close>\<close>

definition re_interface :: regex where
  "re_interface = seqs [lit ''Interface: '', Group 1 (Plus AnyButNewline), lit '' ---'']"

text \<open>\<^verbatim>\<open>  ([\w.]+)\s+(([0-9a-f]{2}-){5}[0-9a-f]{2})\<close>\<close>

definition py_hex :: string where
  "py_hex = ''0123456789abcdef''"

definition re_windows_host :: regex where
  "re_windows_host =
     seqs [lit ''  '', Group 1 (Plus (InSet (py_word @ ''.''))), Plus sp,
           Group 2 (seqs [Times 5 (Group 3 (seqs [Times 2 (Atom (InSet py_hex)),
                                                   Atom (Chr CHR ''-'')])),
                          Times 2 (Atom (InSet py_hex))])]"

definition ip_mismatch_message :: "string option \<Rightarrow> string option \<Rightarrow> string" where
  "ip_mismatch_message local_ip ip_arg =
     ''The IP found in the ARP file is '' @ format_str local_ip @ '' but you supplied ''
     @ format_str ip_arg @ ''. Aborting...''"

text \<open>
  The loop of \<open>parse_windows_arp\<close>, with the pattern of the host lines as a parameter
  (the two copies of the function differ in it only). Its state is the local variable
  \<open>_local_ip\<close>, not bound before the first \<open>Interface:\<close> line, and the list \<open>nodes\<close>.
\<close>

fun windows_arp_lines ::
  "regex \<Rightarrow> string option \<Rightarrow> string list \<Rightarrow> string option var \<Rightarrow> Node list
     \<Rightarrow> error + (string option var \<times> Node list)"
where
  "windows_arp_lines host ip_arg [] local_ip nodes = Inr (local_ip, nodes)"
| "windows_arp_lines host ip_arg (line # rest) local_ip nodes =
     (case match_with_groups re_interface 1 line of
        Some m \<Rightarrow>
          if ip_arg \<noteq> None \<and> group m 1 \<noteq> ip_arg
          then Inl (MyException (ip_mismatch_message (group m 1) ip_arg))
          else windows_arp_lines host ip_arg rest (Bound (group m 1)) nodes
      | None \<Rightarrow>
          (case match_with_groups host 2 line of
             Some m \<Rightarrow>
               windows_arp_lines host ip_arg rest local_ip
                 (nodes @ [mk_Node (group m 1) (group m 2)])
           | None \<Rightarrow> windows_arp_lines host ip_arg rest local_ip nodes))"

text \<open>\<open>return Node(_local_ip), nodes\<close> reads \<open>_local_ip\<close>, bound or not.\<close>

definition parse_windows_arp :: "dumpfile \<Rightarrow> string option \<Rightarrow> error + (Node \<times> Node list)" where
  "parse_windows_arp dumpfile ip_arg =
     (case dumpfile of
        None \<Rightarrow> Inl IOError
      | Some text \<Rightarrow>
          (case windows_arp_lines re_windows_host ip_arg (readlines text) Unbound [] of
             Inl e \<Rightarrow> Inl e
           | Inr (Unbound, nodes) \<Rightarrow> Inl (UnboundLocalError ''_local_ip'')
           | Inr (Bound local_ip, nodes) \<Rightarrow> Inr (mk_Node local_ip None, nodes)))"

section \<open>\<open>src/netgrapher.py\<close>\<close>

text \<open>
  The graph that \<open>grow_graph\<close> is given: a set of nodes and a set of edges. The functions
  of this file are procedures on it; each is modelled as returning how it ended
  (\<open>Inr ()\<close> for a normal return, \<open>Inl\<close> the exception) and the graph it leaves.
\<close>

record graph =
  graph_nodes :: "Node set"
  graph_edges :: "(Node \<times> Node) set"

definition empty_graph :: graph where
  "empty_graph = \<lparr>graph_nodes = {}, graph_edges = {}\<rparr>"

definition SUPPORTED_DUMPFILES :: "string list" where
  "SUPPORTED_DUMPFILES = [''arp'', ''route'', ''traceroute'']"

definition SUPPORTED_OS :: "string list" where
  "SUPPORTED_OS = [''windows'']"

text \<open>
  This file's own \<open>parse_windows_arp\<close>:
  \<^verbatim>\<open>  ([\w.]+)\s+(([0-9a-f]{2}-){5}[0-9a-f])\<close> ends in one hexadecimal digit, and
  the result is the dictionary \<open>{Node(_local_ip): nodes}\<close> of one entry.
\<close>

definition re_windows_host_netgrapher :: regex where
  "re_windows_host_netgrapher =
     seqs [lit ''  '', Group 1 (Plus (InSet (py_word @ ''.''))), Plus sp,
           Group 2 (seqs [Times 5 (Group 3 (seqs [Times 2 (Atom (InSet py_hex)),
                                                   Atom (Chr CHR ''-'')])),
                          Atom (InSet py_hex)])]"

definition netgrapher_parse_windows_arp ::
  "dumpfile \<Rightarrow> string option \<Rightarrow> error + (Node \<times> Node list) list"
where
  "netgrapher_parse_windows_arp dumpfile ip_arg =
     (case dumpfile of
        None \<Rightarrow> Inl IOError
      | Some text \<Rightarrow>
          (case windows_arp_lines re_windows_host_netgrapher ip_arg (readlines text) Unbound [] of
             Inl e \<Rightarrow> Inl e
           | Inr (Unbound, nodes) \<Rightarrow> Inl (UnboundLocalError ''_local_ip'')
           | Inr (Bound local_ip, nodes) \<Rightarrow> Inr [(mk_Node local_ip None, nodes)]))"

text \<open>
  \<open>augment_from_arp\<close> parses and writes the result to the debug log; it does nothing
  with \<open>current_graph\<close>.
\<close>

definition augment_from_arp ::
  "graph \<Rightarrow> dumpfile \<Rightarrow> string \<Rightarrow> string option \<Rightarrow> (error + unit) \<times> graph"
where
  "augment_from_arp current_graph dumpfile dumpfile_os ip_arg =
     (if dumpfile_os = ''windows''
      then (case netgrapher_parse_windows_arp dumpfile ip_arg of
              Inl e \<Rightarrow> (Inl e, current_graph)
            | Inr local_net \<Rightarrow> (Inr (), current_graph))
      else (Inl (NotImplementedError ''Sorry dude''), current_graph))"

definition augment_from_route ::
  "graph \<Rightarrow> dumpfile \<Rightarrow> string \<Rightarrow> string option \<Rightarrow> (error + unit) \<times> graph"
where
  "augment_from_route current_graph dumpfile dumpfile_os ip_arg =
     (Inl (NotImplementedError ''Sorry, haven't written this yet''), current_graph)"

definition augment_from_tr ::
  "graph \<Rightarrow> dumpfile \<Rightarrow> string \<Rightarrow> string option \<Rightarrow> (error + unit) \<times> graph"
where
  "augment_from_tr current_graph dumpfile dumpfile_os ip_arg =
     (Inl (NotImplementedError ''Sorry, haven't written this yet''), current_graph)"

definition guess_dumpfile_type :: "dumpfile \<Rightarrow> string" where
  "guess_dumpfile_type f = ''arp''"

definition guess_dumpfile_os :: "dumpfile \<Rightarrow> string" where
  "guess_dumpfile_os f = ''windows''"

text \<open>
  \<open>grow_graph(current_graph, dumpfile, dumpfile_os=None, dumpfile_type=None, ip=None)\<close>.
  \<open>resolved\<close> is the pair (dump type, OS) after the two \<open>guess_\<close> functions have
  replaced a \<open>None\<close>.
\<close>

definition resolved :: "dumpfile \<Rightarrow> string option \<Rightarrow> string option \<Rightarrow> string \<times> string" where
  "resolved dumpfile dumpfile_os dumpfile_type =
     ((case dumpfile_type of None \<Rightarrow> guess_dumpfile_type dumpfile | Some t \<Rightarrow> t),
      (case dumpfile_os of None \<Rightarrow> guess_dumpfile_os dumpfile | Some s \<Rightarrow> s))"

definition grow_graph ::
  "graph \<Rightarrow> dumpfile \<Rightarrow> string option \<Rightarrow> string option \<Rightarrow> string option
     \<Rightarrow> (error + unit) \<times> graph"
where
  "grow_graph current_graph dumpfile dumpfile_os dumpfile_type ip_arg =
     (case resolved dumpfile dumpfile_os dumpfile_type of
        (ty, os) \<Rightarrow>
          if ty \<notin> set SUPPORTED_DUMPFILES then (Inl (MyException ''Invalid dumpfile''), current_graph)
          else if os \<notin> set SUPPORTED_OS then (Inl (MyException ''Invalid OS''), current_graph)
          else if ty = ''arp'' then augment_from_arp current_graph dumpfile os ip_arg
          else if ty = ''route'' then augment_from_route current_graph dumpfile os ip_arg
          else if ty = ''traceroute'' then augment_from_tr current_graph dumpfile os ip_arg
          else (Inl (NotImplementedError ''This dumpfile is not supported.''), current_graph))"

section \<open>Concrete dump files\<close>

text \<open>The ARP table of a Windows host: the interface line and one neighbour.\<close>

definition arp_scenario :: string where
  "arp_scenario =
     ''Interface: 10.137.2.16 --- 0x11'' @ [newline] @
     ''  10.137.2.1   fe-ff-ff-ff-ff-ff   dynamic'' @ [newline]"

text \<open>The same table without its interface line.\<close>

definition arp_hosts_only :: string where
  "arp_hosts_only = ''  10.137.2.1   fe-ff-ff-ff-ff-ff   dynamic'' @ [newline]"

text \<open>One hop of a Linux traceroute.\<close>

definition tr_scenario :: string where
  "tr_scenario = ''  1  10.137.4.1  0.550 ms  0.463 ms  0.383 ms'' @ [newline]"

text \<open>
  Three more lines of a Linux traceroute: the header line, the tenth hop (the hop number
  fills its two columns, so no blank comes before it) and a hop printed with a host name.
\<close>

definition tr_header_line :: string where
  "tr_header_line =
     ''traceroute to 10.137.4.1 (10.137.4.1), 30 hops max, 60 byte packets'' @ [newline]"

definition tr_hop_ten :: string where
  "tr_hop_ten = ''10  10.0.0.254  1.0 ms  1.1 ms  1.2 ms'' @ [newline]"

definition tr_hop_hostname :: string where
  "tr_hop_hostname = ''  1  my-gw.lan (10.0.0.2)  0.5 ms  0.4 ms  0.4 ms'' @ [newline]"

text \<open>A Windows routing table: the separator line and the default route.\<close>

definition route_scenario :: string where
  "route_scenario =
     ''==========================================================================='' @ [newline] @
     ''          0.0.0.0          0.0.0.0       10.137.2.1      10.137.2.16     10'' @ [newline]"

text \<open>A Linux routing table after an empty line, and a file no signature matches.\<close>

definition route_linux_text :: string where
  "route_linux_text = [newline] @ ''Kernel IP routing table'' @ [newline]"

definition unknown_text :: string where
  "unknown_text = ''hello'' @ [newline]"

section \<open>Node equality\<close>

text \<open>
  C1. Node equality should hold exactly when the IPs match and, if both nodes carry a
  MAC, the MACs match too (a symmetric rule). \<open>Node.__eq__\<close> does not compute it: every
  path of the method reads \<open>self.other\<close>, which no \<open>Node\<close> has, so the comparison of
  two nodes with the same IP raises \<open>AttributeError\<close> instead of returning \<open>True\<close>, and
  so does every other comparison.
\<close>

theorem Node_eq_raises_AttributeError:
  "Node_eq (mk_Node (Some ''10.137.2.1'') None) (mk_Node (Some ''10.137.2.1'') None)
     = Inl (AttributeError ''other'') \<and>
   (\<forall>a b. Node_eq a b = Inl (AttributeError ''other''))"
  by (simp add: Node_eq_def Node_other_def)

section \<open>The dump classifier\<close>

lemma match_signatures_none:
  "(\<forall>entry\<in>set tbl. re_match (snd entry) line = None) \<Longrightarrow> match_signatures tbl line = None"
  by (induction tbl) (auto split: option.splits)

lemma match_signatures_first:
  "(\<forall>entry\<in>set earlier. re_match (snd entry) line = None) \<Longrightarrow> re_match regexp line \<noteq> None
     \<Longrightarrow> match_signatures (earlier @ (type_os, regexp) # later) line = Some type_os"
  by (induction earlier) (auto split: option.splits)

lemma guess_lines_none:
  "(\<forall>line\<in>set lines. match_signatures guess_data line = None)
     \<Longrightarrow> guess_lines lines = (None, None)"
  by (induction lines) auto

lemma guess_lines_first:
  "(\<forall>l\<in>set before. match_signatures guess_data l = None)
     \<Longrightarrow> match_signatures guess_data line = Some type_os
     \<Longrightarrow> guess_lines (before @ line # after) = (Some (fst type_os), Some (snd type_os))"
  by (induction before) (auto split: prod.splits)

text \<open>
  C3. For every text of the file: if no line matches any pattern of \<open>guess_data\<close>, the
  classifier returns \<open>(None, None)\<close>; otherwise, with \<open>line\<close> the first line that some
  pattern matches (no line before it matches any pattern) and \<open>(type_os, regexp)\<close> the
  first entry of the table whose pattern matches that line (no entry before it does), the
  classifier returns the descriptor \<open>type_os\<close> of that entry: the first line wins, and
  on it the first pattern.
\<close>

theorem guess_dumpfile_type_and_os_first_match:
  "((\<forall>line\<in>set (readlines text). \<forall>entry\<in>set guess_data. re_match (snd entry) line = None)
      \<longrightarrow> guess_dumpfile_type_and_os (Some text) = Inr (None, None)) \<and>
   (readlines text = before @ line # after \<and>
    (\<forall>l\<in>set before. \<forall>entry\<in>set guess_data. re_match (snd entry) l = None) \<and>
    guess_data = earlier @ (type_os, regexp) # later \<and>
    (\<forall>entry\<in>set earlier. re_match (snd entry) line = None) \<and>
    re_match regexp line \<noteq> None
      \<longrightarrow> guess_dumpfile_type_and_os (Some text) = Inr (Some (fst type_os), Some (snd type_os)))"
proof (intro conjI impI)
  assume "\<forall>line\<in>set (readlines text). \<forall>entry\<in>set guess_data. re_match (snd entry) line = None"
  then have "\<forall>line\<in>set (readlines text). match_signatures guess_data line = None"
    by (simp add: match_signatures_none)
  then show "guess_dumpfile_type_and_os (Some text) = Inr (None, None)"
    by (simp add: guess_dumpfile_type_and_os_def guess_lines_none)
next
  assume a: "readlines text = before @ line # after \<and>
    (\<forall>l\<in>set before. \<forall>entry\<in>set guess_data. re_match (snd entry) l = None) \<and>
    guess_data = earlier @ (type_os, regexp) # later \<and>
    (\<forall>entry\<in>set earlier. re_match (snd entry) line = None) \<and>
    re_match regexp line \<noteq> None"
  then have "\<forall>l\<in>set before. match_signatures guess_data l = None"
    by (simp add: match_signatures_none)
  moreover from a have "match_signatures guess_data line = Some type_os"
    using match_signatures_first [of earlier line regexp type_os later] by simp
  ultimately have "guess_lines (readlines text) = (Some (fst type_os), Some (snd type_os))"
    using a guess_lines_first [of before line type_os after] by simp
  then show "guess_dumpfile_type_and_os (Some text) = Inr (Some (fst type_os), Some (snd type_os))"
    by (simp add: guess_dumpfile_type_and_os_def)
qed

text \<open>
  The two cases at concrete files: no signature matches \<open>hello\<close>; in the Linux routing
  table the empty first line matches nothing, and on the second line the four entries
  before the title pattern of \<open>route\<close>/\<open>linux\<close> fail.
\<close>

lemma unknown_text_no_match:
  "\<forall>line\<in>set (readlines unknown_text). \<forall>entry\<in>set guess_data. re_match (snd entry) line = None"
  by code_simp

lemma route_linux_text_lines:
  "readlines route_linux_text = [[newline]] @ (''Kernel IP routing table'' @ [newline]) # []"
  by code_simp

lemma route_linux_text_before:
  "\<forall>l\<in>set [[newline]]. \<forall>entry\<in>set guess_data. re_match (snd entry) l = None"
  by code_simp

lemma guess_data_split:
  "guess_data =
     [((''arp'', ''windows''), sig_arp_windows), ((''arp'', ''linux''), sig_arp_linux),
      ((''arp'', ''openbsd''), sig_arp_openbsd), ((''traceroute'', ''linux''), sig_traceroute_linux)]
     @ ((''route'', ''linux''), sig_route_linux_title)
     # [((''route'', ''linux''), sig_route_linux_header), ((''route'', ''windows''), sig_route_windows)]"
  by (simp add: guess_data_def)

lemma route_linux_text_earlier:
  "\<forall>entry\<in>set [((''arp'', ''windows''), sig_arp_windows), ((''arp'', ''linux''), sig_arp_linux),
      ((''arp'', ''openbsd''), sig_arp_openbsd), ((''traceroute'', ''linux''), sig_traceroute_linux)].
     re_match (snd entry) (''Kernel IP routing table'' @ [newline]) = None"
  by code_simp

lemma route_linux_text_title:
  "re_match sig_route_linux_title (''Kernel IP routing table'' @ [newline]) \<noteq> None"
  by code_simp

theorem guess_dumpfile_type_and_os_first_match_witness:
  "guess_dumpfile_type_and_os (Some unknown_text) = Inr (None, None) \<and>
   guess_dumpfile_type_and_os (Some route_linux_text) = Inr (Some ''route'', Some ''linux'')"
proof
  show "guess_dumpfile_type_and_os (Some unknown_text) = Inr (None, None)"
    using guess_dumpfile_type_and_os_first_match [of unknown_text] unknown_text_no_match
    by blast
  show "guess_dumpfile_type_and_os (Some route_linux_text) = Inr (Some ''route'', Some ''linux'')"
    using guess_dumpfile_type_and_os_first_match
      [of route_linux_text "[[newline]]" "''Kernel IP routing table'' @ [newline]" "[]"
          "[((''arp'', ''windows''), sig_arp_windows), ((''arp'', ''linux''), sig_arp_linux),
            ((''arp'', ''openbsd''), sig_arp_openbsd),
            ((''traceroute'', ''linux''), sig_traceroute_linux)]"
          "(''route'', ''linux'')" sig_route_linux_title
          "[((''route'', ''linux''), sig_route_linux_header),
            ((''route'', ''windows''), sig_route_windows)]"]
      route_linux_text_lines route_linux_text_before guess_data_split
      route_linux_text_earlier route_linux_text_title
    by simp
qed

section \<open>The traceroute extractor\<close>

text \<open>
  C4. Without a centre IP, \<open>parse_linux_tr\<close> raises \<open>MyException\<close> (the program's
  validation error) whatever the dump file is, readable or not, and returns no list of
  nodes.
\<close>

theorem parse_linux_tr_requires_ip:
  "parse_linux_tr dumpfile None = Inl (MyException tr_no_ip_message) \<and>
   (\<forall>hops. parse_linux_tr dumpfile None \<noteq> Inr hops)"
  by (simp add: parse_linux_tr_def)

lemma tr_lines_append:
  "tr_lines lines hops =
     hops @ List.map_filter
       (\<lambda>line. map_option (\<lambda>m. mk_Node (group m 1) None) (match_with_groups re_tr_hop 1 line))
       lines"
  by (induction lines arbitrary: hops) (auto simp: List.map_filter_simps split: option.splits)

lemma ngroups_re_tr_hop: "ngroups re_tr_hop = 1"
  by code_simp

lemma tr_scenario_parsed:
  "parse_linux_tr (Some tr_scenario) (Some ''10.0.0.1'')
     = Inr [mk_Node (Some ''10.0.0.1'') None, mk_Node (Some ''10.137.4.1'') None]"
  by code_simp

subsection \<open>What the hop pattern takes from a line\<close>

text \<open>
  The first state that a greedy \<open>+\<close> reaches: it has consumed the whole run \<open>xs\<close> of
  characters of its class, when the run ends the line or is followed by a character
  outside the class.
\<close>

lemma greedy_head:
  "list_all (in_class c) xs \<Longrightarrow> rest = [] \<or> \<not> in_class c (hd rest)
     \<Longrightarrow> \<exists>t. greedy c p (xs @ rest) = (p + length xs, rest) # t"
proof (induction xs arbitrary: p)
  case Nil
  then show ?case by (cases rest) auto
next
  case (Cons x xs)
  then obtain t where "greedy c (Suc p) (xs @ rest) = (Suc p + length xs, rest) # t"
    by fastforce
  with Cons.prems show ?case by simp
qed

lemma run_Plus_head:
  assumes "xs \<noteq> []" and "list_all (in_class c) xs" and "rest = [] \<or> \<not> in_class c (hd rest)"
  shows "\<exists>t. run (Plus c) (p, xs @ rest, g) = (p + length xs, rest, g) # t"
proof -
  from assms(1) obtain x xs' where xs: "xs = x # xs'" by (cases xs) auto
  with assms(2) have "list_all (in_class c) xs'" and x: "in_class c x" by auto
  from greedy_head [OF this(1) assms(3), of "Suc p"]
  obtain t where "greedy c (Suc p) (xs' @ rest) = (Suc p + length xs', rest) # t" by blast
  with xs x show ?thesis by simp
qed

text \<open>
  Every state that a greedy \<open>+\<close> on class \<open>c\<close> can reach in \<open>ws @ rest\<close>, where \<open>ws\<close>
  is in the class and \<open>rest\<close> does not go on with it: what is left starts with a
  character of \<open>ws\<close> or is \<open>rest\<close>, so a following \<open>+\<close> on a class \<open>d\<close> disjoint from
  \<open>c\<close> that does not start \<open>rest\<close> either fails in all of them.
\<close>

lemma greedy_rest:
  "list_all (in_class c) ws
     \<Longrightarrow> rest = [] \<or> (\<not> in_class c (hd rest) \<and> \<not> in_class d (hd rest))
     \<Longrightarrow> (\<And>x. in_class c x \<Longrightarrow> \<not> in_class d x)
     \<Longrightarrow> (p', s') \<in> set (greedy c p (ws @ rest))
     \<Longrightarrow> s' = [] \<or> \<not> in_class d (hd s')"
proof (induction ws arbitrary: p)
  case Nil
  then show ?case by (cases rest) auto
next
  case (Cons x ws)
  then show ?case by (auto split: if_splits)
qed

lemma run_Plus_rest:
  assumes "list_all (in_class c) ws"
    and "rest = [] \<or> (\<not> in_class c (hd rest) \<and> \<not> in_class d (hd rest))"
    and "\<And>x. in_class c x \<Longrightarrow> \<not> in_class d x"
    and "(p', s', g') \<in> set (run (Plus c) (p, ws @ rest, g))"
  shows "s' = [] \<or> \<not> in_class d (hd s')"
proof (cases ws)
  case Nil
  with assms(2,4) show ?thesis by (cases rest) (auto split: if_splits)
next
  case (Cons x ws')
  with assms(1) have "list_all (in_class c) ws'" by simp
  from Cons assms(4) have "(p', s') \<in> set (greedy c (Suc p) (ws' @ rest))"
    by (auto split: if_splits)
  from greedy_rest [OF \<open>list_all (in_class c) ws'\<close> assms(2) assms(3) this]
  show ?thesis by simp
qed

lemma run_Plus_fails: "s = [] \<or> \<not> in_class d (hd s) \<Longrightarrow> run (Plus d) (p, s, g) = []"
  by (cases s) auto

lemma run_Plus_Plus_fails:
  assumes "list_all (in_class c) ws"
    and "rest = [] \<or> (\<not> in_class c (hd rest) \<and> \<not> in_class d (hd rest))"
    and "\<And>x. in_class c x \<Longrightarrow> \<not> in_class d x"
  shows "run (Seq (Plus c) (Seq (Plus d) r)) (p, ws @ rest, g) = []"
proof -
  have "run (Seq (Plus d) r) st = []" if "st \<in> set (run (Plus c) (p, ws @ rest, g))" for st
  proof -
    obtain p' s' g' where st: "st = (p', s', g')" by (cases st) auto
    from run_Plus_rest [OF assms] that st have "s' = [] \<or> \<not> in_class d (hd s')" by blast
    then have "run (Plus d) (p', s', g') = []" by (rule run_Plus_fails)
    then show ?thesis by (simp del: run.simps(3) add: st)
  qed
  then show ?thesis by (simp del: run.simps(3) add: run.simps(5))
qed

lemma space_not_digit: "x \<in> set py_space \<Longrightarrow> x \<notin> set py_digit"
  by (auto simp: py_space_def py_digit_def)

lemma space_not_token: "x \<in> set py_space \<Longrightarrow> x \<notin> set (py_word @ ''.'')"
  by (auto simp: py_space_def py_word_def)

text \<open>
  A hop line: blanks, a hop number, blanks, an address token of letters, digits,
  underscores and dots, and then the end of the line or a blank and anything. The
  pattern matches it and its group is the whole token.
\<close>

lemma re_tr_hop_hop_line:
  assumes ws: "ws \<noteq> []" "set ws \<subseteq> set py_space"
    and ds: "ds \<noteq> []" "set ds \<subseteq> set py_digit"
    and ws': "ws' \<noteq> []" "set ws' \<subseteq> set py_space"
    and tok: "tok \<noteq> []" "set tok \<subseteq> set (py_word @ ''.'')"
    and rest: "rest = [] \<or> hd rest \<in> set py_space"
  shows "re_match re_tr_hop (ws @ ds @ ws' @ tok @ rest) = Some [(1, tok)]"
proof -
  have c1: "list_all (in_class sp) ws" using ws by (auto simp: list_all_iff)
  have c2: "list_all (in_class dg) ds" using ds by (auto simp: list_all_iff)
  have c3: "list_all (in_class sp) ws'" using ws' by (auto simp: list_all_iff)
  have c4: "list_all (in_class (InSet (py_word @ ''.''))) tok"
    using tok by (auto simp: list_all_iff)
  have b1: "ds @ ws' @ tok @ rest = [] \<or> \<not> in_class sp (hd (ds @ ws' @ tok @ rest))"
    using ds by (cases ds) (auto dest: space_not_digit)
  have b2: "ws' @ tok @ rest = [] \<or> \<not> in_class dg (hd (ws' @ tok @ rest))"
    using ws' by (cases ws') (auto dest: space_not_digit)
  have b3: "tok @ rest = [] \<or> \<not> in_class sp (hd (tok @ rest))"
    using tok by (cases tok) (auto dest: space_not_token)
  have b4: "rest = [] \<or> \<not> in_class (InSet (py_word @ ''.'')) (hd rest)"
    using rest by (auto dest: space_not_token)
  obtain t1 where r1: "run (Plus sp) (0, ws @ ds @ ws' @ tok @ rest, [])
      = (length ws, ds @ ws' @ tok @ rest, []) # t1"
    using run_Plus_head [OF ws(1) c1 b1, of 0 "[]"] by auto
  obtain t2 where r2: "run (Plus dg) (length ws, ds @ ws' @ tok @ rest, [])
      = (length ws + length ds, ws' @ tok @ rest, []) # t2"
    using run_Plus_head [OF ds(1) c2 b2, of "length ws" "[]"] by auto
  obtain t3 where r3: "run (Plus sp) (length ws + length ds, ws' @ tok @ rest, [])
      = (length ws + length ds + length ws', tok @ rest, []) # t3"
    using run_Plus_head [OF ws'(1) c3 b3, of "length ws + length ds" "[]"] by auto
  obtain t4 where r4: "run (Plus (InSet (py_word @ ''.'')))
        (length ws + length ds + length ws', tok @ rest, [])
      = (length ws + length ds + length ws' + length tok, rest, []) # t4"
    using run_Plus_head [OF tok(1) c4 b4, of "length ws + length ds + length ws'" "[]"] by auto
  have r5: "\<exists>t. run (Seq (Group 1 (Plus (InSet (py_word @ ''.'')))) Eps)
      (length ws + length ds + length ws', tok @ rest, [])
      = (length ws + length ds + length ws' + length tok, rest, [(1, tok)]) # t"
    using r4 by (simp del: run.simps(3))
  have "\<exists>t. run re_tr_hop (0, ws @ ds @ ws' @ tok @ rest, [])
      = (length ws + length ds + length ws' + length tok, rest, [(1, tok)]) # t"
    unfolding re_tr_hop_def seqs_def foldr.simps o_apply
    using r1 r2 r3 r5 by (auto simp del: run.simps(2,3,6) simp add: run.simps(5))
  then show ?thesis by (auto simp: re_match_def)
qed

text \<open>
  A line that is no hop line: after its leading blanks, if any, it ends or goes on with
  a character that is not a digit. The pattern does not match it.
\<close>

lemma re_tr_hop_other_line:
  assumes "set ws \<subseteq> set py_space"
    and "rest = [] \<or> hd rest \<notin> set py_space \<union> set py_digit"
  shows "re_match re_tr_hop (ws @ rest) = None"
proof -
  have c: "list_all (in_class sp) ws" using assms(1) by (auto simp: list_all_iff)
  have b: "rest = [] \<or> (\<not> in_class sp (hd rest) \<and> \<not> in_class dg (hd rest))"
    using assms(2) by auto
  have "run re_tr_hop (0, ws @ rest, []) = []"
    unfolding re_tr_hop_def seqs_def foldr.simps o_apply
    by (rule run_Plus_Plus_fails [OF c b]) (auto dest: space_not_digit)
  then show ?thesis by (simp add: re_match_def)
qed

text \<open>
  Two lines of real traceroute output that the pattern does not treat as the comment in
  the source intends. It asks for a blank before the hop number, so the line of the
  tenth hop gives no node; and its token class \<open>[\w.]\<close> has no hyphen, so the host
  name \<open>my-gw.lan\<close> is cut to \<open>my\<close>.
\<close>

lemma tr_hop_ten_dropped:
  "parse_linux_tr (Some tr_hop_ten) (Some ''10.0.0.1'') = Inr [mk_Node (Some ''10.0.0.1'') None]"
  by code_simp

lemma tr_hop_hostname_cut:
  "parse_linux_tr (Some tr_hop_hostname) (Some ''10.0.0.1'')
     = Inr [mk_Node (Some ''10.0.0.1'') None, mk_Node (Some ''my'') None]"
  by code_simp

lemma grow_graph_traceroute:
  "snd (grow_graph G dumpfile dumpfile_os (Some ''traceroute'') ip_arg) = G \<and>
   (\<exists>e. fst (grow_graph G dumpfile dumpfile_os (Some ''traceroute'') ip_arg) = Inl e)"
  by (simp add: grow_graph_def resolved_def SUPPORTED_DUMPFILES_def SUPPORTED_OS_def
      augment_from_tr_def split: option.splits)

text \<open>
  C7, as the claim states it, fails. No path-hop edge comes out of the traceroute
  scenario: growing the empty graph from it as a traceroute dump ends in the
  \<open>NotImplementedError\<close> of \<open>augment_from_tr\<close> for the OS \<open>windows\<close> and in
  \<open>Invalid OS\<close> for \<open>linux\<close>, and the graph stays empty. Nor does every hop-numbered
  line give its first address token: the line of the tenth hop gives no hop, and the
  line with the host name \<open>my-gw.lan\<close> gives the hop \<open>my\<close>.
\<close>

theorem tr_scenario_no_edge_counterexample:
  "grow_graph empty_graph (Some tr_scenario) (Some ''windows'') (Some ''traceroute'')
       (Some ''10.0.0.1'')
     = (Inl (NotImplementedError ''Sorry, haven't written this yet''), empty_graph) \<and>
   grow_graph empty_graph (Some tr_scenario) (Some ''linux'') (Some ''traceroute'')
       (Some ''10.0.0.1'')
     = (Inl (MyException ''Invalid OS''), empty_graph) \<and>
   graph_edges empty_graph = {} \<and>
   parse_linux_tr (Some tr_hop_ten) (Some ''10.0.0.1'') = Inr [mk_Node (Some ''10.0.0.1'') None] \<and>
   parse_linux_tr (Some tr_hop_hostname) (Some ''10.0.0.1'')
     = Inr [mk_Node (Some ''10.0.0.1'') None, mk_Node (Some ''my'') None]"
  by (simp add: grow_graph_def resolved_def SUPPORTED_DUMPFILES_def SUPPORTED_OS_def
      augment_from_tr_def empty_graph_def tr_hop_ten_dropped tr_hop_hostname_cut)

text \<open>
  C7, amended. Given a centre IP, \<open>parse_linux_tr\<close> returns the centre node followed by
  the hops of the lines, at most one per line and in the order of the lines, each with
  no MAC. A line made of blanks, a hop number, blanks and an address token of letters,
  digits, underscores and dots, which ends there or goes on with a blank and anything
  (the timing columns), gives exactly that token as its hop. A line that, after its
  leading blanks, ends or goes on with a character that is not a digit (the header line,
  an empty line) gives no hop. The scenario line yields \<open>[10.0.0.1, 10.137.4.1]\<close>.
  No edge is created: for every graph, \<open>augment_from_tr\<close> raises \<open>NotImplementedError\<close>,
  and \<open>grow_graph\<close> on a traceroute dump ends in an exception and leaves the graph as it
  was. Nothing is said of a line whose hop number has no blank before it, nor of a token
  that goes on with a character that is neither of the token nor a blank.
\<close>

theorem parse_linux_tr_hops:
  "parse_linux_tr (Some text) (Some centre)
     = Inr (mk_Node (Some centre) None #
            List.map_filter
              (\<lambda>line. map_option (\<lambda>m. mk_Node (group m 1) None)
                         (match_with_groups re_tr_hop 1 line))
              (readlines text)) \<and>
   (ws \<noteq> [] \<and> set ws \<subseteq> set py_space \<and> ds \<noteq> [] \<and> set ds \<subseteq> set py_digit \<and>
    ws' \<noteq> [] \<and> set ws' \<subseteq> set py_space \<and> tok \<noteq> [] \<and> set tok \<subseteq> set (py_word @ ''.'') \<and>
    (timings = [] \<or> hd timings \<in> set py_space)
      \<longrightarrow> map_option (\<lambda>m. mk_Node (group m 1) None)
            (match_with_groups re_tr_hop 1 (ws @ ds @ ws' @ tok @ timings))
          = Some (mk_Node (Some tok) None)) \<and>
   (set blank \<subseteq> set py_space \<and> (other = [] \<or> hd other \<notin> set py_space \<union> set py_digit)
      \<longrightarrow> map_option (\<lambda>m. mk_Node (group m 1) None)
            (match_with_groups re_tr_hop 1 (blank @ other)) = None) \<and>
   parse_linux_tr (Some tr_scenario) (Some ''10.0.0.1'')
     = Inr [mk_Node (Some ''10.0.0.1'') None, mk_Node (Some ''10.137.4.1'') None] \<and>
   (\<forall>G dumpfile os ip_arg.
      augment_from_tr G dumpfile os ip_arg
        = (Inl (NotImplementedError ''Sorry, haven't written this yet''), G)) \<and>
   (\<forall>G dumpfile dumpfile_os ip_arg.
      snd (grow_graph G dumpfile dumpfile_os (Some ''traceroute'') ip_arg) = G \<and>
      (\<exists>e. fst (grow_graph G dumpfile dumpfile_os (Some ''traceroute'') ip_arg) = Inl e))"
proof (intro conjI impI allI)
  show "parse_linux_tr (Some text) (Some centre)
     = Inr (mk_Node (Some centre) None #
            List.map_filter
              (\<lambda>line. map_option (\<lambda>m. mk_Node (group m 1) None)
                         (match_with_groups re_tr_hop 1 line))
              (readlines text))"
    by (simp add: parse_linux_tr_def tr_lines_append)
next
  assume "ws \<noteq> [] \<and> set ws \<subseteq> set py_space \<and> ds \<noteq> [] \<and> set ds \<subseteq> set py_digit \<and>
    ws' \<noteq> [] \<and> set ws' \<subseteq> set py_space \<and> tok \<noteq> [] \<and> set tok \<subseteq> set (py_word @ ''.'') \<and>
    (timings = [] \<or> hd timings \<in> set py_space)"
  then have "re_match re_tr_hop (ws @ ds @ ws' @ tok @ timings) = Some [(1, tok)]"
    by (intro re_tr_hop_hop_line) simp_all
  then show "map_option (\<lambda>m. mk_Node (group m 1) None)
            (match_with_groups re_tr_hop 1 (ws @ ds @ ws' @ tok @ timings))
          = Some (mk_Node (Some tok) None)"
    by (simp add: match_with_groups_def ngroups_re_tr_hop group_def)
next
  assume "set blank \<subseteq> set py_space \<and> (other = [] \<or> hd other \<notin> set py_space \<union> set py_digit)"
  then have "re_match re_tr_hop (blank @ other) = None"
    by (intro re_tr_hop_other_line) simp_all
  then show "map_option (\<lambda>m. mk_Node (group m 1) None)
            (match_with_groups re_tr_hop 1 (blank @ other)) = None"
    by (simp add: match_with_groups_def)
next
  show "parse_linux_tr (Some tr_scenario) (Some ''10.0.0.1'')
     = Inr [mk_Node (Some ''10.0.0.1'') None, mk_Node (Some ''10.137.4.1'') None]"
    by (rule tr_scenario_parsed)
next
  show "augment_from_tr G dumpfile os ip_arg
        = (Inl (NotImplementedError ''Sorry, haven't written this yet''), G)"
    for G dumpfile os ip_arg
    by (simp add: augment_from_tr_def)
next
  show "snd (grow_graph G dumpfile dumpfile_os (Some ''traceroute'') ip_arg) = G"
    for G dumpfile dumpfile_os ip_arg
    using grow_graph_traceroute by blast
next
  show "\<exists>e. fst (grow_graph G dumpfile dumpfile_os (Some ''traceroute'') ip_arg) = Inl e"
    for G dumpfile dumpfile_os ip_arg
    using grow_graph_traceroute by blast
qed

text \<open>
  At the scenario line, cut into its blanks, hop number, blanks, token and timing
  columns, and at the header line of a traceroute, which has no leading blank.
\<close>

theorem parse_linux_tr_hops_witness:
  "map_option (\<lambda>m. mk_Node (group m 1) None)
     (match_with_groups re_tr_hop 1 (''  '' @ ''1'' @ ''  '' @ ''10.137.4.1'' @
        ''  0.550 ms  0.463 ms  0.383 ms'' @ [newline]))
     = Some (mk_Node (Some ''10.137.4.1'') None) \<and>
   ''  '' @ ''1'' @ ''  '' @ ''10.137.4.1'' @ ''  0.550 ms  0.463 ms  0.383 ms'' @ [newline]
     = tr_scenario \<and>
   map_option (\<lambda>m. mk_Node (group m 1) None)
     (match_with_groups re_tr_hop 1 ([] @ tr_header_line)) = None"
proof -
  have h1: "''  '' \<noteq> [] \<and> set ''  '' \<subseteq> set py_space \<and> ''1'' \<noteq> [] \<and> set ''1'' \<subseteq> set py_digit \<and>
    ''  '' \<noteq> [] \<and> set ''  '' \<subseteq> set py_space \<and> ''10.137.4.1'' \<noteq> [] \<and>
    set ''10.137.4.1'' \<subseteq> set (py_word @ ''.'') \<and>
    (''  0.550 ms  0.463 ms  0.383 ms'' @ [newline] = [] \<or>
     hd (''  0.550 ms  0.463 ms  0.383 ms'' @ [newline]) \<in> set py_space)"
    by (simp add: py_space_def py_digit_def py_word_def)
  have h2: "set [] \<subseteq> set py_space \<and>
    (tr_header_line = [] \<or> hd tr_header_line \<notin> set py_space \<union> set py_digit)"
    by (simp add: tr_header_line_def py_space_def py_digit_def)
  have e: "''  '' @ ''1'' @ ''  '' @ ''10.137.4.1'' @ ''  0.550 ms  0.463 ms  0.383 ms'' @ [newline]
     = tr_scenario"
    by (simp add: tr_scenario_def)
  show ?thesis
    using h1 h2 e
      parse_linux_tr_hops [where ws = "''  ''" and ds = "''1''" and ws' = "''  ''"
        and tok = "''10.137.4.1''" and timings = "''  0.550 ms  0.463 ms  0.383 ms'' @ [newline]"
        and blank = "[]" and other = tr_header_line]
    by blast
qed

section \<open>The Windows ARP extractor\<close>

lemma ngroups_re_interface: "ngroups re_interface = 1"
  by code_simp

lemma match_interface:
  "match_with_groups re_interface (Suc 0) line = re_match re_interface line"
  by (simp add: match_with_groups_def ngroups_re_interface split: option.splits)

lemma windows_arp_lines_mismatch:
  "line \<in> set lines \<Longrightarrow> re_match re_interface line = Some m \<Longrightarrow> group m 1 \<noteq> Some supplied
     \<Longrightarrow> \<exists>found. found \<noteq> Some supplied \<and>
           windows_arp_lines host (Some supplied) lines local_ip nodes
             = Inl (MyException (ip_mismatch_message found (Some supplied)))"
proof (induction lines arbitrary: local_ip nodes)
  case Nil
  then show ?case by simp
next
  case (Cons l ls)
  show ?case
  proof (cases "re_match re_interface l")
    case None
    with Cons.prems have "line \<in> set ls" by auto
    from Cons.IH [OF this Cons.prems(2,3)] None show ?thesis
      by (simp add: match_interface split: option.splits)
  next
    case (Some m')
    show ?thesis
    proof (cases "group m' 1 = Some supplied")
      case False
      with Some show ?thesis by (auto simp: match_interface)
    next
      case True
      with Some Cons.prems have "line \<in> set ls" by auto
      from Cons.IH [OF this Cons.prems(2,3)] Some True show ?thesis
        by (simp add: match_interface)
    qed
  qed
qed

text \<open>
  C8. When a centre IP is supplied and some \<open>Interface:\<close> line of the file carries a
  different one, \<open>parse_windows_arp\<close> (both copies of it) raises \<open>MyException\<close> with the
  message naming the IP found and the IP supplied, the two being different; it returns
  no (centre, nodes) result, whatever the other lines are.
\<close>

theorem parse_windows_arp_ip_mismatch:
  assumes "line \<in> set (readlines text)"
    and "re_match re_interface line = Some m"
    and "group m 1 \<noteq> Some supplied"
  shows "(\<exists>found. found \<noteq> Some supplied \<and>
            parse_windows_arp (Some text) (Some supplied)
              = Inl (MyException (ip_mismatch_message found (Some supplied)))) \<and>
         (\<exists>found. found \<noteq> Some supplied \<and>
            netgrapher_parse_windows_arp (Some text) (Some supplied)
              = Inl (MyException (ip_mismatch_message found (Some supplied))))"
proof
  from windows_arp_lines_mismatch [OF assms, of re_windows_host Unbound "[]"]
  show "\<exists>found. found \<noteq> Some supplied \<and>
            parse_windows_arp (Some text) (Some supplied)
              = Inl (MyException (ip_mismatch_message found (Some supplied)))"
    by (auto simp: parse_windows_arp_def)
  from windows_arp_lines_mismatch [OF assms, of re_windows_host_netgrapher Unbound "[]"]
  show "\<exists>found. found \<noteq> Some supplied \<and>
            netgrapher_parse_windows_arp (Some text) (Some supplied)
              = Inl (MyException (ip_mismatch_message found (Some supplied)))"
    by (auto simp: netgrapher_parse_windows_arp_def)
qed

text \<open>
  At the ARP scenario, whose interface line says \<open>10.137.2.16\<close>, with \<open>10.0.0.1\<close>
  supplied.
\<close>

theorem parse_windows_arp_ip_mismatch_witness:
  "(\<exists>found. found \<noteq> Some ''10.0.0.1'' \<and>
      parse_windows_arp (Some arp_scenario) (Some ''10.0.0.1'')
        = Inl (MyException (ip_mismatch_message found (Some ''10.0.0.1'')))) \<and>
   (\<exists>found. found \<noteq> Some ''10.0.0.1'' \<and>
      netgrapher_parse_windows_arp (Some arp_scenario) (Some ''10.0.0.1'')
        = Inl (MyException (ip_mismatch_message found (Some ''10.0.0.1''))))"
proof -
  have h1: "''Interface: 10.137.2.16 --- 0x11'' @ [newline] \<in> set (readlines arp_scenario)"
    by code_simp
  have h2: "re_match re_interface (''Interface: 10.137.2.16 --- 0x11'' @ [newline])
              = Some [(1, ''10.137.2.16'')]"
    by code_simp
  have h3: "group [(1, ''10.137.2.16'')] 1 \<noteq> Some ''10.0.0.1''"
    by code_simp
  show ?thesis
    by (rule parse_windows_arp_ip_mismatch [OF h1 h2 h3])
qed

lemma windows_arp_lines_no_interface:
  "(\<forall>line\<in>set lines. re_match re_interface line = None)
     \<Longrightarrow> \<exists>nodes'. windows_arp_lines host ip_arg lines local_ip nodes = Inr (local_ip, nodes')"
  by (induction lines arbitrary: nodes) (auto simp: match_interface split: option.splits)

text \<open>
  C10. When no line of the file matches the \<open>Interface:\<close> pattern, \<open>parse_windows_arp\<close>
  (both copies of it) reaches its \<open>return\<close> with \<open>_local_ip\<close> never bound and raises
  \<open>UnboundLocalError\<close>, a \<open>NameError\<close>: it returns no result and raises no
  \<open>MyException\<close>, with or without a supplied IP.
\<close>

theorem parse_windows_arp_no_interface_line:
  assumes "\<forall>line\<in>set (readlines text). re_match re_interface line = None"
  shows "parse_windows_arp (Some text) ip_arg = Inl (UnboundLocalError ''_local_ip'') \<and>
         netgrapher_parse_windows_arp (Some text) ip_arg = Inl (UnboundLocalError ''_local_ip'')"
proof
  obtain nodes1 where
    "windows_arp_lines re_windows_host ip_arg (readlines text) Unbound [] = Inr (Unbound, nodes1)"
    using windows_arp_lines_no_interface [OF assms] by blast
  then show "parse_windows_arp (Some text) ip_arg = Inl (UnboundLocalError ''_local_ip'')"
    by (simp add: parse_windows_arp_def)
  obtain nodes2 where
    "windows_arp_lines re_windows_host_netgrapher ip_arg (readlines text) Unbound []
       = Inr (Unbound, nodes2)"
    using windows_arp_lines_no_interface [OF assms] by blast
  then show "netgrapher_parse_windows_arp (Some text) ip_arg
               = Inl (UnboundLocalError ''_local_ip'')"
    by (simp add: netgrapher_parse_windows_arp_def)
qed

text \<open>At the ARP table that has a host line and no interface line.\<close>

theorem parse_windows_arp_no_interface_line_witness:
  "re_match re_interface (''  10.137.2.1   fe-ff-ff-ff-ff-ff   dynamic'' @ [newline]) = None \<and>
   parse_windows_arp (Some arp_hosts_only) None = Inl (UnboundLocalError ''_local_ip'') \<and>
   netgrapher_parse_windows_arp (Some arp_hosts_only) None = Inl (UnboundLocalError ''_local_ip'')"
proof -
  have h: "\<forall>line\<in>set (readlines arp_hosts_only). re_match re_interface line = None"
    by code_simp
  have "re_match re_interface (''  10.137.2.1   fe-ff-ff-ff-ff-ff   dynamic'' @ [newline]) = None"
    by code_simp
  then show ?thesis
    using parse_windows_arp_no_interface_line [OF h, of None] by simp
qed

lemma arp_scenario_parsed:
  "parse_windows_arp (Some arp_scenario) None
     = Inr (mk_Node (Some ''10.137.2.16'') None,
            [mk_Node (Some ''10.137.2.1'') (Some ''fe-ff-ff-ff-ff-ff'')])"
  by code_simp

text \<open>
  The copy of the parser in \<open>src/netgrapher.py\<close>, the one \<open>augment_from_arp\<close> calls,
  cuts the last digit of the MAC: its pattern ends in one hexadecimal digit.
\<close>

lemma arp_scenario_parsed_netgrapher:
  "netgrapher_parse_windows_arp (Some arp_scenario) None
     = Inr [(mk_Node (Some ''10.137.2.16'') None,
             [mk_Node (Some ''10.137.2.1'') (Some ''fe-ff-ff-ff-ff-f'')])]"
  by code_simp

lemma resolved_default: "resolved dumpfile None None = (''arp'', ''windows'')"
  by (simp add: resolved_def guess_dumpfile_type_def guess_dumpfile_os_def)

text \<open>
  C6, as the claim states it, fails: growing the empty graph from the ARP scenario
  (type and OS guessed, no IP supplied) returns normally and leaves the graph empty, so
  there is no edge between the centre node and the discovered node.
\<close>

theorem arp_scenario_no_edge_counterexample:
  "grow_graph empty_graph (Some arp_scenario) None None None = (Inr (), empty_graph) \<and>
   (mk_Node (Some ''10.137.2.16'') None, mk_Node (Some ''10.137.2.1'') (Some ''fe-ff-ff-ff-ff-ff''))
     \<notin> graph_edges (snd (grow_graph empty_graph (Some arp_scenario) None None None))"
  by (simp add: grow_graph_def resolved_default SUPPORTED_DUMPFILES_def SUPPORTED_OS_def
      augment_from_arp_def arp_scenario_parsed_netgrapher empty_graph_def)

text \<open>
  C6, amended. \<open>parse_windows_arp\<close> of \<open>networkmap/parsers.py\<close> yields, for the ARP
  scenario, the centre node \<open>10.137.2.16\<close> and the one discovered node \<open>10.137.2.1\<close>
  with MAC \<open>fe-ff-ff-ff-ff-ff\<close>. \<open>augment_from_arp\<close> adds nothing to the graph: for every
  graph it returns normally and leaves the graph as it was.
\<close>

theorem arp_scenario_nodes_no_edge:
  "parse_windows_arp (Some arp_scenario) None
     = Inr (mk_Node (Some ''10.137.2.16'') None,
            [mk_Node (Some ''10.137.2.1'') (Some ''fe-ff-ff-ff-ff-ff'')]) \<and>
   (\<forall>G. augment_from_arp G (Some arp_scenario) ''windows'' None = (Inr (), G))"
  by (simp add: augment_from_arp_def arp_scenario_parsed_netgrapher arp_scenario_parsed)

section \<open>Growing the graph\<close>

lemma grow_graph_frame: "snd (grow_graph G dumpfile dumpfile_os dumpfile_type ip_arg) = G"
  by (simp add: grow_graph_def augment_from_arp_def augment_from_route_def augment_from_tr_def
      split: prod.splits sum.splits)

text \<open>
  C2. \<open>grow_graph\<close> never changes the graph it is given, on any path, so growing the
  grown graph again from the same dump (any dump file, any dump type, OS and IP) ends
  the same way and leaves the same graph as growing once: the second run adds no node
  and no edge.
\<close>

theorem grow_graph_idempotent:
  "grow_graph (snd (grow_graph G dumpfile dumpfile_os dumpfile_type ip_arg))
       dumpfile dumpfile_os dumpfile_type ip_arg
     = grow_graph G dumpfile dumpfile_os dumpfile_type ip_arg \<and>
   graph_nodes (snd (grow_graph (snd (grow_graph G dumpfile dumpfile_os dumpfile_type ip_arg))
          dumpfile dumpfile_os dumpfile_type ip_arg))
     - graph_nodes (snd (grow_graph G dumpfile dumpfile_os dumpfile_type ip_arg)) = {} \<and>
   graph_edges (snd (grow_graph (snd (grow_graph G dumpfile dumpfile_os dumpfile_type ip_arg))
          dumpfile dumpfile_os dumpfile_type ip_arg))
     - graph_edges (snd (grow_graph G dumpfile dumpfile_os dumpfile_type ip_arg)) = {}"
  by (simp add: grow_graph_frame)

text \<open>
  C5, as the claim states it, fails: growing the empty graph from a Windows routing
  table with a default route through \<open>10.137.2.1\<close> raises \<open>NotImplementedError\<close> and
  leaves the node set empty, so no discovered node has been added.
\<close>

theorem route_growth_adds_no_node_counterexample:
  "grow_graph empty_graph (Some route_scenario) (Some ''windows'') (Some ''route'') None
     = (Inl (NotImplementedError ''Sorry, haven't written this yet''), empty_graph) \<and>
   graph_nodes (snd (grow_graph empty_graph (Some route_scenario) (Some ''windows'')
                       (Some ''route'') None)) = {}"
  by (simp add: grow_graph_def resolved_def SUPPORTED_DUMPFILES_def SUPPORTED_OS_def
      augment_from_route_def empty_graph_def)

text \<open>
  C5, amended. Growth from a route dump leaves the edge set of the graph unchanged:
  route entries never create edges. It leaves the node set unchanged too, and it always
  ends in an exception (for the OS \<open>windows\<close>, the \<open>NotImplementedError\<close> of
  \<open>augment_from_route\<close>).
\<close>

theorem route_growth_frame:
  "graph_edges (snd (grow_graph G dumpfile dumpfile_os (Some ''route'') ip_arg)) = graph_edges G \<and>
   graph_nodes (snd (grow_graph G dumpfile dumpfile_os (Some ''route'') ip_arg)) = graph_nodes G \<and>
   (\<exists>e. fst (grow_graph G dumpfile dumpfile_os (Some ''route'') ip_arg) = Inl e) \<and>
   fst (grow_graph G dumpfile (Some ''windows'') (Some ''route'') ip_arg)
     = Inl (NotImplementedError ''Sorry, haven't written this yet'')"
  by (simp add: grow_graph_def resolved_def SUPPORTED_DUMPFILES_def SUPPORTED_OS_def
      augment_from_route_def split: option.splits)

text \<open>
  C9. The one pair with an extractor is \<open>arp\<close>/\<open>windows\<close>. For every other resolved
  pair of dump type and OS, \<open>grow_graph\<close> ends in an exception that says the format is
  not supported (\<open>Invalid dumpfile\<close>, \<open>Invalid OS\<close>, or the \<open>NotImplementedError\<close> of
  the route and traceroute steps) and the graph is the one it was given.
\<close>

theorem grow_graph_unsupported:
  assumes "resolved dumpfile dumpfile_os dumpfile_type \<noteq> (''arp'', ''windows'')"
  shows "\<exists>e. grow_graph G dumpfile dumpfile_os dumpfile_type ip_arg = (Inl e, G) \<and>
             e \<in> {MyException ''Invalid dumpfile'', MyException ''Invalid OS'',
                  NotImplementedError ''Sorry, haven't written this yet''}"
  using assms
  by (auto simp: grow_graph_def SUPPORTED_DUMPFILES_def SUPPORTED_OS_def
      augment_from_route_def augment_from_tr_def split: prod.splits)

text \<open>At a Linux traceroute: \<open>linux\<close> is not among the supported OS.\<close>

theorem grow_graph_unsupported_witness:
  "resolved (Some tr_scenario) (Some ''linux'') (Some ''traceroute'') \<noteq> (''arp'', ''windows'') \<and>
   (\<exists>e. grow_graph empty_graph (Some tr_scenario) (Some ''linux'') (Some ''traceroute'')
           (Some ''10.0.0.1'') = (Inl e, empty_graph) \<and>
         e \<in> {MyException ''Invalid dumpfile'', MyException ''Invalid OS'',
              NotImplementedError ''Sorry, haven't written this yet''})"
proof -
  have h: "resolved (Some tr_scenario) (Some ''linux'') (Some ''traceroute'')
             \<noteq> (''arp'', ''windows'')"
    by (simp add: resolved_def)
  show ?thesis
    using h grow_graph_unsupported [OF h, of empty_graph "Some ''10.0.0.1''"] by simp
qed

end
